theory Spec2Isabelle
  imports Complex_Main
begin

section \<open>The animation-context lifecycle of one region\<close>

text \<open>
  The source is the lifecycle pattern that every animated component repeats
  (the workflow document on view transitions, section 1):
  \<^verbatim>\<open>
  let ctx: gsap.Context | null = null;

  function initAnimations() {
    if (ctx) { ctx.revert(); ctx = null; }
    const section = document.querySelector("#my-section");
    if (!section) return;
    ctx = gsap.context(() => { ... }, section);
  }

  document.addEventListener("astro:page-load", initAnimations);
  document.addEventListener("astro:before-swap", () => {
    if (ctx) { ctx.revert(); ctx = null; }
  });
  \<close>
  Each component has its own module-level variable and its own two listeners, so
  the model below is the model of any one region.
\<close>

subsection \<open>State\<close>

text \<open>
  A \<^verbatim>\<open>gsap.Context\<close> object is identified by the order of its creation. The
  animation library is outside the repository; what the embedding keeps of it is
  the list of contexts that were created and not yet reverted (\<open>live\<close>), the
  identity of the next context object (\<open>next_id\<close>), and a log of the calls the
  component makes out of its own code, oldest first (\<open>calls\<close>).
\<close>

type_synonym handle = nat

datatype call =
    Revert handle      \<comment> \<open>\<^verbatim>\<open>ctx.revert()\<close> on that context\<close>
  | QuerySelector      \<comment> \<open>\<^verbatim>\<open>document.querySelector("#my-section")\<close>\<close>
  | Context handle     \<comment> \<open>\<^verbatim>\<open>gsap.context(callback, section)\<close>, the context it is to create\<close>

record world =
  ctx :: "handle option"    \<comment> \<open>\<^verbatim>\<open>let ctx: gsap.Context | null = null\<close>\<close>
  live :: "handle list"
  next_id :: handle
  calls :: "call list"

definition init :: world where
  "init = \<lparr>ctx = None, live = [], next_id = 0, calls = []\<rparr>"

subsection \<open>The calls out of the component\<close>

text \<open>
  \<^verbatim>\<open>ctx.revert()\<close> undoes the context: it is no longer live. On a context that is
  not live nothing is left to undo. The call is taken to return normally.
\<close>

definition ctx_revert :: "handle \<Rightarrow> world \<Rightarrow> world" where
  "ctx_revert h w = w\<lparr>live := removeAll h (live w), calls := calls w @ [Revert h]\<rparr>"

text \<open>
  \<^verbatim>\<open>document.querySelector("#my-section")\<close> answers with the element, with
  \<^verbatim>\<open>null\<close> on a page that does not render the component, or (for a selector the
  engine rejects) by throwing. The answer depends on the page, which is not part
  of the component: it is an input of the handler.
\<close>

datatype lookup = Found | Missing | LookupThrows

definition querySelector :: "world \<Rightarrow> world" where
  "querySelector w = w\<lparr>calls := calls w @ [QuerySelector]\<rparr>"

text \<open>
  \<^verbatim>\<open>gsap.context(callback, section)\<close> creates a context, runs the callback and
  returns the context. When the call throws, nothing is returned; the flag of
  \<open>OpenThrows\<close> says whether the library had created the context by then, which
  then stays live with no reference to it. The call is logged in either case.
\<close>

datatype open_outcome = Opened | OpenThrows bool

definition gsap_context :: "world \<Rightarrow> handle \<times> world" where
  "gsap_context w =
     (next_id w,
      w\<lparr>live := next_id w # live w,
        next_id := Suc (next_id w),
        calls := calls w @ [Context (next_id w)]\<rparr>)"

definition gsap_context_throws :: "bool \<Rightarrow> world \<Rightarrow> world" where
  "gsap_context_throws created w =
     (if created then snd (gsap_context w)
      else w\<lparr>calls := calls w @ [Context (next_id w)]\<rparr>)"

subsection \<open>The two handlers\<close>

datatype completion = Returned | Thrown

text \<open>
  \<^verbatim>\<open>if (ctx)\<close> on an object reference is the test against \<^verbatim>\<open>null\<close>. The
  statements run in the order of the source; a throwing call ends the handler
  with the state reached so far.
\<close>

definition initAnimations :: "lookup \<Rightarrow> open_outcome \<Rightarrow> world \<Rightarrow> completion \<times> world" where
  "initAnimations page lib w =
     (let w1 = (case ctx w of
                  Some h \<Rightarrow> (ctx_revert h w)\<lparr>ctx := None\<rparr>
                | None \<Rightarrow> w);
          w2 = querySelector w1
      in case page of
           LookupThrows \<Rightarrow> (Thrown, w2)
         | Missing \<Rightarrow> (Returned, w2)
         | Found \<Rightarrow>
             (case lib of
                OpenThrows created \<Rightarrow> (Thrown, gsap_context_throws created w2)
              | Opened \<Rightarrow>
                  (let (h, w3) = gsap_context w2
                   in (Returned, w3\<lparr>ctx := Some h\<rparr>))))"

definition beforeSwap :: "world \<Rightarrow> world" where
  "beforeSwap w =
     (case ctx w of
        Some h \<Rightarrow> (ctx_revert h w)\<lparr>ctx := None\<rparr>
      | None \<Rightarrow> w)"

subsection \<open>Navigation signals\<close>

text \<open>
  \<^verbatim>\<open>astro:page-load\<close> is the navigation-complete signal; it comes with the
  outcome of resolving the region root on the page just loaded. \<^verbatim>\<open>astro:before-swap\<close>
  is the navigation-about-to-start signal. In a run of signals every call into
  the library returns.
\<close>

datatype signal = NavigationComplete bool | NavigationAboutToStart

fun dispatch :: "signal \<Rightarrow> world \<Rightarrow> world" where
  "dispatch (NavigationComplete resolves) w =
     snd (initAnimations (if resolves then Found else Missing) Opened w)"
| "dispatch NavigationAboutToStart w = beforeSwap w"

fun run :: "signal list \<Rightarrow> world \<Rightarrow> world" where
  "run [] w = w"
| "run (s # ss) w = run ss (dispatch s w)"

text \<open>The two states of the coordinator, read off the slot.\<close>

datatype lifecycle = IDLE | ACTIVE

definition state_of :: "world \<Rightarrow> lifecycle" where
  "state_of w = (case ctx w of None \<Rightarrow> IDLE | Some h \<Rightarrow> ACTIVE)"

text \<open>The number of \<^verbatim>\<open>ctx.revert()\<close> and of \<^verbatim>\<open>gsap.context\<close> calls in a log.\<close>

fun is_revert :: "call \<Rightarrow> bool" where
  "is_revert (Revert h) = True"
| "is_revert c = False"

fun is_open :: "call \<Rightarrow> bool" where
  "is_open (Context h) = True"
| "is_open c = False"

definition reverts :: "world \<Rightarrow> nat" where
  "reverts w = length (filter is_revert (calls w))"

definition opens :: "world \<Rightarrow> nat" where
  "opens w = length (filter is_open (calls w))"

text \<open>The contexts the slot refers to: none or one.\<close>

definition slot_contexts :: "world \<Rightarrow> handle list" where
  "slot_contexts w = (case ctx w of None \<Rightarrow> [] | Some h \<Rightarrow> [h])"

text \<open>
  What is compared when two runs are said to end in the same state: the state of
  the coordinator, whether the context in the slot is live, and how many
  contexts are live.
\<close>

definition slot_is_live :: "world \<Rightarrow> bool" where
  "slot_is_live w = (case ctx w of None \<Rightarrow> False | Some h \<Rightarrow> h \<in> set (live w))"

definition end_state :: "world \<Rightarrow> lifecycle \<times> bool \<times> nat" where
  "end_state w = (state_of w, slot_is_live w, length (live w))"

text \<open>
  Reading a log from its start with the context that is open at that point:
  the result is the context open at the end, or \<open>None\<close> when the log creates a
  context while an earlier one is still open.
\<close>

fun scan :: "call list \<Rightarrow> handle option \<Rightarrow> handle option option" where
  "scan [] cur = Some cur"
| "scan (Context h # cs) cur = (if cur = None then scan cs (Some h) else None)"
| "scan (Revert h # cs) cur = scan cs (if cur = Some h then None else cur)"
| "scan (QuerySelector # cs) cur = scan cs cur"

section \<open>Brand configuration\<close>

text \<open>
  \<^verbatim>\<open>src/brands/types.ts\<close>: a field marked \<^verbatim>\<open>?\<close> may be left out of the object
  literal and is an \<open>option\<close> here. A string is the sequence of the bytes of
  the literal in the source file (UTF-8); a \<^verbatim>\<open>number\<close> is the decimal the literal
  denotes.
\<close>

record BrandConfig =
  id_field :: string
  name :: string
  schemaName :: "string option"
  domain :: "string option"
  logoPath :: string
  logoPathWhite :: "string option"
  primaryColor :: string
  accentColor :: string
  phone :: string
  email :: string
  address :: string
  cityLabel :: string
  googleMapsUrl :: "string option"
  gaId :: "string option"
  metaPixelId :: "string option"
  latitude :: "real option"
  longitude :: "real option"
  streetAddress :: "string option"
  addressLocality :: "string option"
  addressRegion :: "string option"
  postalCode :: "string option"
  ratingValue :: "string option"
  reviewCount :: "string option"
  shopImage :: "string option"

text \<open>\<^verbatim>\<open>src/brands/mobile-tires.ts\<close>, the first of its two variants.\<close>

definition mobileTiresBrand :: BrandConfig where
  "mobileTiresBrand = \<lparr>
     id_field = ''mobile-tires'',
     name = ''Queens Auto Service'',
     schemaName = Some ''Queens Auto Services Elgin'',
     domain = Some ''queensautoserviceselgin.com'',
     logoPath = ''/images/logos/site logos/New-Logo.webp'',
     logoPathWhite = Some ''/images/logos/site logos/Logo-White.webp'',
     primaryColor = ''#0b1121'',
     accentColor = ''#0e79c9'',
     phone = ''(224) 635-3000'',
     email = ''info@queensautoserviceselgin.com'',
     address = ''1303 Dundee Ave, Elgin, IL 60120'',
     cityLabel = ''Professional Auto Service '' @ [CHR 0xE2, CHR 0x80, CHR 0x93] @ '' Elgin, IL'',
     googleMapsUrl =
       Some ''https://www.google.com/maps/search/?api=1&query=1303+Dundee+Ave+Elgin+IL+60120'',
     gaId = None,
     metaPixelId = None,
     latitude = Some 42.0615014,
     longitude = Some (- 88.2652443),
     streetAddress = Some ''1303 Dundee Ave'',
     addressLocality = Some ''Elgin'',
     addressRegion = Some ''IL'',
     postalCode = Some ''60120'',
     ratingValue = Some ''4.5'',
     reviewCount = Some ''147'',
     shopImage = Some ''/images/shop/Queens-Auto-Services-Elgin-a-view-from-outside.webp''\<rparr>"

text \<open>The second variant of the same export.\<close>

definition mobileTiresBrand_second :: BrandConfig where
  "mobileTiresBrand_second = \<lparr>
     id_field = ''mobile-tires'',
     name = ''Queens Mobile Tires'',
     schemaName = None,
     domain = Some ''queensmobiletires.com'',
     logoPath = ''/images/logos/site logos/New-Logo.webp'',
     logoPathWhite = Some ''/images/logos/site logos/Logo-White.webp'',
     primaryColor = ''#0b1121'',
     accentColor = ''#0e79c9'',
     phone = ''(847) 925-1100'',
     email = ''info@queensmobiletires.com'',
     address = ''Everywhere'',
     cityLabel =
       ''Mobile Tire Service ''
       @ [CHR 0xC3, CHR 0xA2, CHR 0xE2, CHR 0x82, CHR 0xAC, CHR 0xE2, CHR 0x80, CHR 0x9C]
       @ '' Chicagoland'',
     googleMapsUrl =
       Some ''https://maps.google.com/?q=2401+E+Algonquin+Rd,+Lake+in+the+Hills,+IL+60102'',
     gaId = None,
     metaPixelId = None,
     latitude = None,
     longitude = None,
     streetAddress = None,
     addressLocality = None,
     addressRegion = None,
     postalCode = None,
     ratingValue = None,
     reviewCount = None,
     shopImage = None\<rparr>"

text \<open>
  What a record supplies: a name, the contact fields, both coordinates, and the
  fields that feed the schema markup (the exact business name, the postal
  address in parts, and the rating).
\<close>

definition supplies_name :: "BrandConfig \<Rightarrow> bool" where
  "supplies_name b = (name b \<noteq> [])"

definition supplies_contact :: "BrandConfig \<Rightarrow> bool" where
  "supplies_contact b = (phone b \<noteq> [] \<and> email b \<noteq> [] \<and> address b \<noteq> [])"

definition supplies_geo :: "BrandConfig \<Rightarrow> bool" where
  "supplies_geo b = (latitude b \<noteq> None \<and> longitude b \<noteq> None)"

definition supplies_schema :: "BrandConfig \<Rightarrow> bool" where
  "supplies_schema b =
     (schemaName b \<noteq> None \<and> streetAddress b \<noteq> None \<and> addressLocality b \<noteq> None \<and>
      addressRegion b \<noteq> None \<and> postalCode b \<noteq> None \<and>
      ratingValue b \<noteq> None \<and> reviewCount b \<noteq> None)"

section \<open>Properties of the lifecycle\<close>

lemmas handler_defs =
  initAnimations_def beforeSwap_def ctx_revert_def querySelector_def gsap_context_def
  gsap_context_throws_def

subsection \<open>The slot and the live contexts agree\<close>

lemma live_init: "live init = slot_contexts init"
  by (simp add: init_def slot_contexts_def)

lemma live_beforeSwap:
  "live w = slot_contexts w \<Longrightarrow> live (beforeSwap w) = slot_contexts (beforeSwap w)"
  by (simp add: beforeSwap_def slot_contexts_def ctx_revert_def split: option.splits)

lemma live_initAnimations:
  "live w = slot_contexts w \<Longrightarrow>
   live (snd (initAnimations (if r then Found else Missing) Opened w)) =
   slot_contexts (snd (initAnimations (if r then Found else Missing) Opened w))"
  by (simp add: initAnimations_def slot_contexts_def ctx_revert_def querySelector_def
      gsap_context_def split: option.splits)

lemma live_dispatch:
  "live w = slot_contexts w \<Longrightarrow> live (dispatch s w) = slot_contexts (dispatch s w)"
  by (cases s) (simp_all add: live_beforeSwap live_initAnimations)

lemma live_run:
  "live w = slot_contexts w \<Longrightarrow> live (run ss w) = slot_contexts (run ss w)"
  by (induction ss arbitrary: w) (simp_all add: live_dispatch)

lemma length_slot_contexts: "length (slot_contexts w) \<le> 1"
  by (simp add: slot_contexts_def split: option.splits)

text \<open>
  C1. After any finite sequence of navigation-complete and
  navigation-about-to-start signals, with the region root resolving or not at
  each navigation-complete, the number of live contexts of the region is 0 or 1.
\<close>

theorem at_most_one_live_scope: "length (live (run sigs init)) \<le> 1"
proof -
  have "live (run sigs init) = slot_contexts (run sigs init)"
    by (rule live_run) (rule live_init)
  with length_slot_contexts [of "run sigs init"] show ?thesis
    by simp
qed

subsection \<open>The navigation-complete transition\<close>

text \<open>
  C2. On a navigation-complete signal the handler returns normally and has, in
  this order: reverted the context of the slot and emptied the slot, if the slot
  held one; resolved the region root; and, only if the root resolved, created
  exactly one new context and stored it in the slot. It ends in \<open>IDLE\<close> with
  the slot empty when the root is absent and in \<open>ACTIVE\<close> otherwise.
\<close>

theorem navigation_complete_transition:
  "initAnimations (if resolves then Found else Missing) Opened w =
     (Returned,
      \<lparr>ctx = (if resolves then Some (next_id w) else None),
       live = (if resolves then [next_id w] else [])
              @ (case ctx w of Some h \<Rightarrow> removeAll h (live w) | None \<Rightarrow> live w),
       next_id = (if resolves then Suc (next_id w) else next_id w),
       calls = calls w
               @ (case ctx w of Some h \<Rightarrow> [Revert h] | None \<Rightarrow> [])
               @ [QuerySelector]
               @ (if resolves then [Context (next_id w)] else [])\<rparr>)
   \<and> state_of (snd (initAnimations (if resolves then Found else Missing) Opened w)) =
       (if resolves then ACTIVE else IDLE)"
  by (cases w) (simp add: handler_defs state_of_def split: option.splits)

subsection \<open>Away and back\<close>

text \<open>
  C3, as amended. From the empty slot, the signals navigation-complete,
  navigation-about-to-start, navigation-complete, with the region root resolving
  both times, end with exactly one live context; over the run \<^verbatim>\<open>ctx.revert()\<close>
  was called exactly once and \<^verbatim>\<open>gsap.context\<close> exactly twice. The one revert is
  the about-to-start handler's: the first navigation-complete handler starts on
  the empty slot and its calls are the lookup and the open of context 0; the
  about-to-start handler adds the revert of context 0 and leaves the slot empty;
  the second navigation-complete handler so starts on the empty slot again and
  adds only the lookup and the open of context 1.
\<close>

theorem away_and_back_counts:
  "length (live (run [NavigationComplete True, NavigationAboutToStart,
                      NavigationComplete True] init)) = 1
   \<and> reverts (run [NavigationComplete True, NavigationAboutToStart,
                   NavigationComplete True] init) = 1
   \<and> opens (run [NavigationComplete True, NavigationAboutToStart,
                 NavigationComplete True] init) = 2
   \<and> ctx init = None
   \<and> calls (run [NavigationComplete True] init) = [QuerySelector, Context 0]
   \<and> ctx (run [NavigationComplete True] init) = Some 0
   \<and> calls (run [NavigationComplete True, NavigationAboutToStart] init) =
       [QuerySelector, Context 0, Revert 0]
   \<and> ctx (run [NavigationComplete True, NavigationAboutToStart] init) = None
   \<and> calls (run [NavigationComplete True, NavigationAboutToStart,
                 NavigationComplete True] init) =
       [QuerySelector, Context 0, Revert 0, QuerySelector, Context 1]
   \<and> ctx (run [NavigationComplete True, NavigationAboutToStart,
               NavigationComplete True] init) = Some 1
   \<and> live (run [NavigationComplete True, NavigationAboutToStart,
                NavigationComplete True] init) = [1]"
  by (simp add: init_def handler_defs reverts_def opens_def)

text \<open>
  C3 as stated, with two revert calls, fails on that very run.
\<close>

theorem away_and_back_two_reverts_counterexample:
  "\<not> (length (live (run [NavigationComplete True, NavigationAboutToStart,
                         NavigationComplete True] init)) = 1
      \<and> reverts (run [NavigationComplete True, NavigationAboutToStart,
                      NavigationComplete True] init) = 2
      \<and> opens (run [NavigationComplete True, NavigationAboutToStart,
                    NavigationComplete True] init) = 2)"
  by (simp add: init_def handler_defs reverts_def opens_def)

subsection \<open>Running the navigation-complete routine twice\<close>

lemma end_state_twice:
  "live w = slot_contexts w \<Longrightarrow>
   end_state (dispatch (NavigationComplete r) (dispatch (NavigationComplete r) w)) =
   end_state (dispatch (NavigationComplete r) w)"
  by (simp add: handler_defs end_state_def state_of_def slot_is_live_def slot_contexts_def
      split: option.splits)

text \<open>
  C4. In every invocation of the navigation-complete routine that opens a scope,
  from any state of the slot (the empty one of the first load included), the
  calls it makes are: the revert of the context of the slot, if any, then the
  lookup, then the creation of the new context. And in every state the
  coordinator can reach, running the routine twice in a row on the same page
  ends in the same state of the coordinator, with the same liveness of the slot
  and the same number of live contexts, as running it once.
\<close>

theorem revert_before_open_makes_complete_idempotent:
  "drop (length (calls w)) (calls (snd (initAnimations Found Opened w))) =
     (case ctx w of Some h \<Rightarrow> [Revert h] | None \<Rightarrow> [])
     @ [QuerySelector, Context (next_id w)]
   \<and> end_state (dispatch (NavigationComplete r)
                  (dispatch (NavigationComplete r) (run sigs init))) =
     end_state (dispatch (NavigationComplete r) (run sigs init))"
proof
  show "drop (length (calls w)) (calls (snd (initAnimations Found Opened w))) =
     (case ctx w of Some h \<Rightarrow> [Revert h] | None \<Rightarrow> [])
     @ [QuerySelector, Context (next_id w)]"
    by (simp add: handler_defs split: option.splits)
  have "live (run sigs init) = slot_contexts (run sigs init)"
    by (rule live_run) (rule live_init)
  then show "end_state (dispatch (NavigationComplete r)
                  (dispatch (NavigationComplete r) (run sigs init))) =
     end_state (dispatch (NavigationComplete r) (run sigs init))"
    by (rule end_state_twice)
qed

subsection \<open>Revert\<close>

text \<open>
  C5. Reverting twice in a row ends in the same state as reverting once, for
  every state of the slot; with the slot empty (\<^verbatim>\<open>null\<close>) the revert changes
  nothing; and \<^verbatim>\<open>revert()\<close> on a context that is already reverted leaves the
  live contexts, the library and the slot as they were.
\<close>

theorem revert_idempotent:
  "beforeSwap (beforeSwap w) = beforeSwap w
   \<and> (ctx w = None \<longrightarrow> beforeSwap w = w)
   \<and> (h \<notin> set (live w) \<longrightarrow>
        live (ctx_revert h w) = live w \<and> next_id (ctx_revert h w) = next_id w
        \<and> ctx (ctx_revert h w) = ctx w)
   \<and> live (ctx_revert h (ctx_revert h w)) = live (ctx_revert h w)"
  by (simp add: beforeSwap_def ctx_revert_def split: option.splits)

text \<open>
  The empty slot of the first load, and context 0 after it was opened and
  reverted.
\<close>

theorem revert_idempotent_witness:
  "ctx init = None \<and> beforeSwap init = init
   \<and> 0 \<notin> set (live (beforeSwap (run [NavigationComplete True] init)))
   \<and> live (ctx_revert 0 (beforeSwap (run [NavigationComplete True] init))) =
       live (beforeSwap (run [NavigationComplete True] init))"
  using revert_idempotent [of init 0]
    revert_idempotent [of "beforeSwap (run [NavigationComplete True] init)" 0]
  by (simp add: init_def handler_defs)

subsection \<open>A page without the region\<close>

text \<open>
  C6. On a page where the region root does not resolve, the navigation-complete
  handler returns without an exception (whatever the library would do on an
  open), makes no \<^verbatim>\<open>gsap.context\<close> call, and leaves the slot empty: \<open>IDLE\<close>.
\<close>

theorem absent_region_safety:
  "fst (initAnimations Missing lib w) = Returned
   \<and> ctx (snd (initAnimations Missing lib w)) = None
   \<and> state_of (snd (initAnimations Missing lib w)) = IDLE
   \<and> opens (snd (initAnimations Missing lib w)) = opens w"
  by (simp add: handler_defs state_of_def opens_def split: option.splits)

subsection \<open>No second open without a revert in between\<close>

lemma scan_append:
  "scan (xs @ ys) cur = (case scan xs cur of None \<Rightarrow> None | Some c \<Rightarrow> scan ys c)"
  by (induction xs cur rule: scan.induct) simp_all

lemma scan_closed: "scan ys (Some h) = Some None \<Longrightarrow> Revert h \<in> set ys"
proof (induction ys)
  case Nil
  then show ?case by simp
next
  case (Cons c ys)
  then show ?case by (cases c) (auto split: if_splits)
qed

lemma scan_two_opens:
  assumes "scan (xs @ Context h1 # ys @ Context h2 # zs) cur = Some c"
  shows "Revert h1 \<in> set ys"
proof -
  from assms obtain c1 where "scan xs cur = Some c1"
    and rest: "scan (Context h1 # ys @ Context h2 # zs) c1 = Some c"
    by (auto simp: scan_append split: option.splits)
  from rest have "scan (ys @ Context h2 # zs) (Some h1) = Some c"
    by (simp split: if_splits)
  then obtain c2 where c2: "scan ys (Some h1) = Some c2"
    and last: "scan (Context h2 # zs) c2 = Some c"
    by (auto simp: scan_append split: option.splits)
  from last have "c2 = None"
    by (simp split: if_splits)
  with c2 show ?thesis
    by (simp add: scan_closed)
qed

lemma scan_init: "scan (calls init) None = Some (ctx init)"
  by (simp add: init_def)

lemma scan_dispatch:
  "scan (calls w) None = Some (ctx w) \<Longrightarrow>
   scan (calls (dispatch s w)) None = Some (ctx (dispatch s w))"
  by (cases s) (simp_all add: handler_defs scan_append split: option.splits)

lemma scan_run:
  "scan (calls w) None = Some (ctx w) \<Longrightarrow>
   scan (calls (run ss w)) None = Some (ctx (run ss w))"
  by (induction ss arbitrary: w) (simp_all add: scan_dispatch)

text \<open>
  C7. In the log of every run of the two handlers from the first load, between
  the creation of a context and any later creation of a context lies a revert
  of the earlier one.
\<close>

theorem no_open_without_intervening_revert:
  "calls (run sigs init) = xs @ Context h1 # ys @ Context h2 # zs \<Longrightarrow>
   Revert h1 \<in> set ys"
proof -
  assume log: "calls (run sigs init) = xs @ Context h1 # ys @ Context h2 # zs"
  have "scan (calls (run sigs init)) None = Some (ctx (run sigs init))"
    by (rule scan_run) (rule scan_init)
  with log
  have "scan (xs @ Context h1 # ys @ Context h2 # zs) None = Some (ctx (run sigs init))"
    by simp
  then show ?thesis
    by (rule scan_two_opens)
qed

text \<open>Away and back: contexts 0 and 1, and the revert of 0 between them.\<close>

theorem no_open_without_intervening_revert_witness:
  "calls (run [NavigationComplete True, NavigationAboutToStart,
               NavigationComplete True] init) =
     [QuerySelector] @ Context 0 # [Revert 0, QuerySelector] @ Context 1 # []
   \<and> Revert 0 \<in> set [Revert 0, QuerySelector]"
proof -
  have log: "calls (run [NavigationComplete True, NavigationAboutToStart,
                         NavigationComplete True] init) =
     [QuerySelector] @ Context 0 # [Revert 0, QuerySelector] @ Context 1 # []"
    by (simp add: init_def handler_defs)
  from log no_open_without_intervening_revert [OF log] show ?thesis
    by blast
qed

subsection \<open>A throwing lookup or open\<close>

text \<open>
  C8. Whenever the navigation-complete handler ends by an exception, thrown by
  the lookup of the root or by the creation of the new context, the slot is
  empty, and the calls made were, in this order: the revert of the context the
  slot held, if any, then the lookup, then, if the root was found, the creation
  that threw. So the slot was emptied before the lookup and the open were
  attempted, and holds no reverted context.
\<close>

theorem slot_empty_when_handler_throws:
  "fst (initAnimations page lib w) = Thrown \<Longrightarrow>
   ctx (snd (initAnimations page lib w)) = None
   \<and> calls (snd (initAnimations page lib w)) =
       calls w @ (case ctx w of Some h \<Rightarrow> [Revert h] | None \<Rightarrow> [])
       @ QuerySelector # (if page = Found then [Context (next_id w)] else [])"
  by (cases page; cases lib; cases "ctx w") (simp_all add: handler_defs Let_def)

text \<open>The slot holds context 0 and the creation of the next context throws.\<close>

theorem slot_empty_when_handler_throws_witness:
  "fst (initAnimations Found (OpenThrows True) (run [NavigationComplete True] init)) = Thrown
   \<and> ctx (run [NavigationComplete True] init) = Some 0
   \<and> ctx (snd (initAnimations Found (OpenThrows True)
                 (run [NavigationComplete True] init))) = None"
proof -
  have thrown:
    "fst (initAnimations Found (OpenThrows True) (run [NavigationComplete True] init)) = Thrown"
    by (simp add: init_def handler_defs)
  have "ctx (run [NavigationComplete True] init) = Some 0"
    by (simp add: init_def handler_defs)
  with thrown slot_empty_when_handler_throws [OF thrown] show ?thesis
    by blast
qed

section \<open>Properties of the brand configuration\<close>

text \<open>
  C10, as amended. The module is one object literal of string and number
  literals, a value of type \<open>BrandConfig\<close>. Both variants supply a name and the
  contact fields. The first variant also supplies the coordinates and the schema
  fields; the second leaves out the coordinates and every schema field, which
  the type allows.
\<close>

theorem brand_records_supply:
  "supplies_name mobileTiresBrand \<and> supplies_contact mobileTiresBrand
   \<and> supplies_geo mobileTiresBrand \<and> supplies_schema mobileTiresBrand
   \<and> supplies_name mobileTiresBrand_second \<and> supplies_contact mobileTiresBrand_second
   \<and> latitude mobileTiresBrand_second = None \<and> longitude mobileTiresBrand_second = None
   \<and> schemaName mobileTiresBrand_second = None
   \<and> streetAddress mobileTiresBrand_second = None
   \<and> addressLocality mobileTiresBrand_second = None
   \<and> addressRegion mobileTiresBrand_second = None
   \<and> postalCode mobileTiresBrand_second = None
   \<and> ratingValue mobileTiresBrand_second = None
   \<and> reviewCount mobileTiresBrand_second = None"
  by (simp add: supplies_name_def supplies_contact_def supplies_geo_def supplies_schema_def
      mobileTiresBrand_def mobileTiresBrand_second_def)

text \<open>
  C10 as stated, every record supplying coordinates and schema fields too, fails
  on the second variant.
\<close>

theorem brand_second_supplies_all_counterexample:
  "\<not> (supplies_name mobileTiresBrand_second \<and> supplies_contact mobileTiresBrand_second
      \<and> supplies_geo mobileTiresBrand_second \<and> supplies_schema mobileTiresBrand_second)"
  by (simp add: supplies_geo_def mobileTiresBrand_second_def)

end
